theory Spec2Isabelle
  imports Main
begin

section \<open>Data\<close>

text \<open>
  The program is \<^verbatim>\<open>app.py\<close>, the Streamlit front end of the data measurements tool.
  It is a sequence of conditional calls into a statistics object
  (\<^verbatim>\<open>dataset_statistics.DatasetStatisticsCacheClass\<close>), the UI toolkit, the logger, the
  disk and one HTTP endpoint. The embedding runs each function of the file on a
  \<open>world\<close> (the disk, the handlers of the logger, and the trace of the calls the file
  has issued so far) and takes the answers of everything outside the file from an
  environment \<open>env\<close>.
\<close>

subsection \<open>Python values and dictionaries\<close>

datatype pyval = Str string | PyList "pyval list"

text \<open>A Python dict with string keys, in insertion order.\<close>

type_synonym dict = "(string \<times> pyval) list"

text \<open>\<^verbatim>\<open>d[k] = v\<close>: an existing key keeps its place, a new key goes last.\<close>

fun dict_set :: "dict \<Rightarrow> string \<Rightarrow> pyval \<Rightarrow> dict" where
  "dict_set [] k v = [(k, v)]"
| "dict_set ((k', v') # d) k v =
     (if k' = k then (k, v) # d else (k', v') # dict_set d k v)"

text \<open>\<^verbatim>\<open>dict(d, **kw)\<close>: a copy of \<open>d\<close> updated with the keyword arguments in turn.\<close>

definition dict_kwargs :: "dict \<Rightarrow> dict \<Rightarrow> dict" where
  "dict_kwargs d kw = fold (\<lambda>(k, v) acc. dict_set acc k v) kw d"

text \<open>An object this file only passes on (figures, data frames, the configs mapping).\<close>

datatype pyobj = PyObj nat

subsection \<open>Exceptions\<close>

datatype exn =
    FileExistsError
  | FileNotFoundError
  | NotADirectoryError
  | IsADirectoryError
  | Exception string

subsection \<open>The disk\<close>

text \<open>
  A path is its list of components below the working directory, so \<^verbatim>\<open>./log_files/app.log\<close>
  is \<open>[''log_files'', ''app.log'']\<close> and \<open>[]\<close> is the working directory itself.
\<close>

type_synonym path = "string list"

record disk =
  dirs :: "path set"
  files :: "path set"

definition isdir :: "disk \<Rightarrow> path \<Rightarrow> bool" where
  "isdir fsys p = (p = [] \<or> p \<in> dirs fsys)"

definition path_exists :: "disk \<Rightarrow> path \<Rightarrow> bool" where
  "path_exists fsys p = (isdir fsys p \<or> p \<in> files fsys)"

text \<open>\<^verbatim>\<open>os.mkdir(p)\<close>.\<close>

definition os_mkdir :: "disk \<Rightarrow> path \<Rightarrow> exn + disk" where
  "os_mkdir fsys p =
     (if path_exists fsys p then Inl FileExistsError
      else if butlast p \<in> files fsys then Inl NotADirectoryError
      else if isdir fsys (butlast p) then Inr (fsys\<lparr>dirs := insert p (dirs fsys)\<rparr>)
      else Inl FileNotFoundError)"

text \<open>
  \<^verbatim>\<open>Path(p).mkdir(exist_ok=True)\<close>: pathlib calls \<^verbatim>\<open>os.mkdir\<close>, re-raises
  \<^verbatim>\<open>FileNotFoundError\<close>, and swallows any other \<^verbatim>\<open>OSError\<close> when the path is a directory.
\<close>

definition path_mkdir_exist_ok :: "disk \<Rightarrow> path \<Rightarrow> exn + disk" where
  "path_mkdir_exist_ok fsys p =
     (case os_mkdir fsys p of
        Inr fsys' \<Rightarrow> Inr fsys'
      | Inl FileNotFoundError \<Rightarrow> Inl FileNotFoundError
      | Inl e \<Rightarrow> (if isdir fsys p then Inr fsys else Inl e))"

text \<open>Opening a file for appending, as \<^verbatim>\<open>logging.FileHandler(p)\<close> does when it is built.\<close>

definition open_append :: "disk \<Rightarrow> path \<Rightarrow> exn + disk" where
  "open_append fsys p =
     (if isdir fsys p then Inl IsADirectoryError
      else if p \<in> files fsys then Inr fsys
      else if butlast p \<in> files fsys then Inl NotADirectoryError
      else if isdir fsys (butlast p) then Inr (fsys\<lparr>files := insert p (files fsys)\<rparr>)
      else Inl FileNotFoundError)"

subsection \<open>The statistics object\<close>

text \<open>The attributes of the statistics object that this file reads.\<close>

record dstats =
  dset_name :: string
  dset_config :: string
  split_name :: string
  text_field :: "string list"
  fig_labels :: pyobj
  npmi_stats :: pyobj
  zipf_z :: pyobj
  zipf_fig :: pyobj
  text_dset :: pyobj
  fig_tree :: pyobj
  node_list :: pyobj
  embeddings :: pyobj
  complete :: bool

text \<open>The \<^verbatim>\<open>load_or_prepare_*\<close> methods that this file calls.\<close>

datatype metric =
    Dataset
  | Dset_peek
  | General_stats
  | Labels
  | Text_lengths
  | Embeddings
  | Text_duplicates
  | Vocab
  | Npmi
  | Zipf

text \<open>The calls into the collaborator: the constructor and the methods.\<close>

datatype call =
    DatasetStatisticsCacheClass path dict bool
  | Set_deployment bool
  | Check_cache_dir
  | Load_or_prepare metric

subsection \<open>The trace\<close>

datatype level = WARNING | INFO

datatype slot = Email_input | Compute_button

datatype event =
    Logs level string
  | Collab call disk
  | St_markdown string
  | St_text string
  | St_empty slot
  | Text_input slot string
  | Button slot string
  | Clear slot
  | Expander_header dstats pyobj string
  | Expander_general_stats dstats string
  | Expander_label_distribution pyobj string
  | Expander_text_lengths dstats string
  | Expander_text_duplicates dstats string
  | Npmi_widget pyobj nat string
  | Expander_zipf pyobj pyobj string
  | Expander_text_embeddings pyobj pyobj pyobj pyobj string string
  | Requests_post "string option" dict

datatype handler = FileHandler path | StreamHandler

record world =
  fs :: disk
  handlers :: "handler list"
  trace :: "event list"

subsection \<open>The environment\<close>

text \<open>
  Everything the file takes from outside: the constants of \<^verbatim>\<open>dataset_utils\<close> and of the
  process environment, the object the constructor yields, which calls into the
  collaborator raise (each is issued at most once in a run of a loader), what
  \<^verbatim>\<open>check_cache_dir()\<close> returns, what the user typed and pressed, the email validator
  (\<open>None\<close> is \<^verbatim>\<open>EmailNotValidError\<close>, \<open>Some e\<close> the normalised address), and the HTTP
  server (an exception of \<^verbatim>\<open>requests\<close>, or the text of the response).
\<close>

record env =
  CACHE_DIR :: path
  OUR_TEXT_FIELD :: string
  SERVER_URL :: "string option"
  dstats_object :: "path \<Rightarrow> dict \<Rightarrow> bool \<Rightarrow> dstats"
  raises :: "call \<Rightarrow> exn option"
  cache_dir_found :: bool
  email_typed :: string
  button_pressed :: bool
  validate_email :: "string \<Rightarrow> string option"
  requests_post :: "string option \<Rightarrow> dict \<Rightarrow> exn + string"

section \<open>Statements and control flow\<close>

text \<open>A statement runs on a world and either raises or falls through.\<close>

type_synonym stmt = "world \<Rightarrow> exn option \<times> world"

definition emit :: "event \<Rightarrow> world \<Rightarrow> world" where
  "emit e w = w\<lparr>trace := trace w @ [e]\<rparr>"

text \<open>A call that cannot raise in this model: logging and the UI toolkit.\<close>

definition say :: "event \<Rightarrow> stmt" where
  "say e w = (None, emit e w)"

definition logs_warning :: "string \<Rightarrow> stmt" where
  "logs_warning msg = say (Logs WARNING msg)"

definition logs_info :: "string \<Rightarrow> stmt" where
  "logs_info msg = say (Logs INFO msg)"

text \<open>A call into the collaborator, recorded with the disk it runs on.\<close>

definition collab :: "env \<Rightarrow> call \<Rightarrow> stmt" where
  "collab E c w = (raises E c, emit (Collab c (fs w)) w)"

text \<open>\<^verbatim>\<open>mkdir(p)\<close> as a statement.\<close>

definition mkdir :: "path \<Rightarrow> stmt" where
  "mkdir p w =
     (case os_mkdir (fs w) p of
        Inl e \<Rightarrow> (Some e, w)
      | Inr fsys \<Rightarrow> (None, w\<lparr>fs := fsys\<rparr>))"

text \<open>A block: the statements in turn, up to the first that raises.\<close>

fun block :: "stmt list \<Rightarrow> stmt" where
  "block [] w = (None, w)"
| "block (s # ss) w =
     (case s w of
        (Some e, w') \<Rightarrow> (Some e, w')
      | (None, w') \<Rightarrow> block ss w')"

text \<open>\<^verbatim>\<open>if b: body\<close>.\<close>

definition if_then :: "bool \<Rightarrow> stmt \<Rightarrow> stmt" where
  "if_then b body w = (if b then body w else (None, w))"

text \<open>\<^verbatim>\<open>try: body except: handler\<close>, the bare \<^verbatim>\<open>except\<close> that catches everything.\<close>

definition try_except :: "stmt \<Rightarrow> stmt \<Rightarrow> stmt" where
  "try_except body handler w =
     (case body w of
        (Some e, w') \<Rightarrow> handler w'
      | (None, w') \<Rightarrow> (None, w'))"

text \<open>\<^verbatim>\<open>try: dstats.load_or_prepare_m() except: logs.warning(msg)\<close>.\<close>

definition guarded :: "env \<Rightarrow> metric \<Rightarrow> string \<Rightarrow> stmt" where
  "guarded E m msg = try_except (collab E (Load_or_prepare m)) (logs_warning msg)"

text \<open>The value a function returns, or the exception that left it.\<close>

definition returning :: "'a \<Rightarrow> exn option \<times> world \<Rightarrow> (exn + 'a) \<times> world" where
  "returning v r = (case r of (Some e, w) \<Rightarrow> (Inl e, w) | (None, w) \<Rightarrow> (Inr v, w))"

section \<open>The program\<close>

subsection \<open>Setting up the logger (lines 41 to 58)\<close>

text \<open>
  The module body gives the logger \<^verbatim>\<open>logs\<close> its two handlers unless it already has some
  (Streamlit runs the script again at every interaction).
\<close>

definition log_files :: path where
  "log_files = [''log_files'']"

definition app_log :: path where
  "app_log = [''log_files'', ''app.log'']"

definition path_mkdir :: "path \<Rightarrow> stmt" where
  "path_mkdir p w =
     (case path_mkdir_exist_ok (fs w) p of
        Inl e \<Rightarrow> (Some e, w)
      | Inr fsys \<Rightarrow> (None, w\<lparr>fs := fsys\<rparr>))"

definition new_FileHandler :: "path \<Rightarrow> stmt" where
  "new_FileHandler p w =
     (case open_append (fs w) p of
        Inl e \<Rightarrow> (Some e, w)
      | Inr fsys \<Rightarrow> (None, w\<lparr>fs := fsys\<rparr>))"

definition addHandler :: "handler \<Rightarrow> stmt" where
  "addHandler h w = (None, w\<lparr>handlers := handlers w @ [h]\<rparr>)"

definition logs_setup :: stmt where
  "logs_setup w =
     if_then (handlers w = [])
       (block
         [path_mkdir log_files,
          new_FileHandler app_log,
          addHandler (FileHandler app_log),
          addHandler StreamHandler]) w"

subsection \<open>The constants\<close>

definition MIN_VOCAB_COUNT :: nat where
  "MIN_VOCAB_COUNT = 10"

subsection \<open>\<^verbatim>\<open>load_or_prepare\<close>\<close>

text \<open>Lines 102 to 106: \<^verbatim>\<open>if not isdir(CACHE_DIR): logs.warning(...); mkdir(CACHE_DIR)\<close>.\<close>

definition cache_dir_guard :: "env \<Rightarrow> stmt" where
  "cache_dir_guard E w =
     if_then (\<not> isdir (fs w) (CACHE_DIR E))
       (block [logs_warning ''Creating cache'', mkdir (CACHE_DIR E)]) w"

definition load_or_prepare :: "env \<Rightarrow> dict \<Rightarrow> bool \<Rightarrow> bool \<Rightarrow> world \<Rightarrow> (exn + dstats) \<times> world" where
  "load_or_prepare E ds_args show_embeddings use_cache w =
     returning (dstats_object E (CACHE_DIR E) ds_args use_cache)
       (block
         [cache_dir_guard E,
          if_then use_cache (logs_warning ''Using cache''),
          collab E (DatasetStatisticsCacheClass (CACHE_DIR E) ds_args use_cache),
          logs_warning ''Loading dataset'',
          collab E (Load_or_prepare Dataset),
          logs_warning ''Loading labels'',
          collab E (Load_or_prepare Labels),
          logs_warning ''Loading text lengths'',
          collab E (Load_or_prepare Text_lengths),
          logs_warning ''Loading duplicates'',
          collab E (Load_or_prepare Text_duplicates),
          logs_warning ''Loading vocabulary'',
          collab E (Load_or_prepare Vocab),
          logs_warning ''Loading general statistics...'',
          collab E (Load_or_prepare General_stats),
          if_then show_embeddings
            (block [logs_warning ''Loading Embeddings'', collab E (Load_or_prepare Embeddings)]),
          logs_warning ''Loading nPMI'',
          guarded E Npmi ''Missing a cache for npmi'',
          logs_warning ''Loading Zipf'',
          collab E (Load_or_prepare Zipf)] w)"

subsection \<open>\<^verbatim>\<open>load_or_prepare_widgets\<close>\<close>

definition load_or_prepare_widgets ::
  "env \<Rightarrow> dict \<Rightarrow> bool \<Rightarrow> bool \<Rightarrow> world \<Rightarrow> (exn + dstats \<times> bool) \<times> world" where
  "load_or_prepare_widgets E ds_args show_embeddings use_cache w =
     returning (dstats_object E (CACHE_DIR E) ds_args use_cache, cache_dir_found E)
       (block
         [if_then use_cache (logs_warning ''Using cache''),
          collab E (DatasetStatisticsCacheClass (CACHE_DIR E) ds_args use_cache),
          collab E (Set_deployment True),
          collab E Check_cache_dir,
          if_then (cache_dir_found E)
            (block
              [guarded E Dataset ''Missing a cache for load or prepare dataset'',
               guarded E Dset_peek ''Missing a cache for dset peek'',
               guarded E General_stats ''Missing a cache for general stats'',
               guarded E Labels ''Missing a cache for prepare labels'',
               guarded E Text_lengths ''Missing a cache for text lengths'',
               if_then show_embeddings (guarded E Embeddings ''Missing a cache for embeddings''),
               guarded E Text_duplicates ''Missing a cache for text duplicates'',
               guarded E Npmi ''Missing a cache for npmi'',
               guarded E Zipf ''Missing a cache for zipf''])] w)"

subsection \<open>\<^verbatim>\<open>show_column\<close>\<close>

text \<open>\<^verbatim>\<open>'-'.join(xs)\<close>.\<close>

fun join_dash :: "string list \<Rightarrow> string" where
  "join_dash [] = []"
| "join_dash [x] = x"
| "join_dash (x # y # ys) = x @ ''-'' @ join_dash (y # ys)"

definition title_str :: "dstats \<Rightarrow> string \<Rightarrow> string" where
  "title_str d column_id =
     ''### Showing'' @ column_id @ '': '' @ dset_name d @ '' - '' @ dset_config d
       @ '' - '' @ split_name d @ '' - '' @ join_dash (text_field d)"

definition show_column :: "env \<Rightarrow> dstats \<Rightarrow> pyobj \<Rightarrow> bool \<Rightarrow> string \<Rightarrow> stmt" where
  "show_column E d ds_configs show_embeddings column_id =
     block
       [say (St_markdown (title_str d column_id)),
        logs_info ''showing header'',
        say (Expander_header d ds_configs column_id),
        logs_info ''showing general stats'',
        say (Expander_general_stats d column_id),
        say (Expander_label_distribution (fig_labels d) column_id),
        say (Expander_text_lengths d column_id),
        say (Expander_text_duplicates d column_id),
        logs_info ''showing npmi widget'',
        say (Npmi_widget (npmi_stats d) MIN_VOCAB_COUNT column_id),
        logs_info ''showing zipf'',
        say (Expander_zipf (zipf_z d) (zipf_fig d) column_id),
        if_then show_embeddings
          (say (Expander_text_embeddings (text_dset d) (fig_tree d) (node_list d)
                  (embeddings d) (OUR_TEXT_FIELD E) column_id))]"

subsection \<open>\<^verbatim>\<open>display_or_compute_data_measures\<close>\<close>

definition check_back :: string where
  "check_back = ''Check back later for data measurement results!''"

definition email_prompt :: string where
  "email_prompt = ''We are missing pre-computed data measures for this configuration. Enter your email. Our app will compute the measurements and email you when done!''"

definition computing_msg :: string where
  "computing_msg = ''Computing metrics! An email will be sent to you.\<newline>This could take a while if the dataset is big.''"

definition problem_msg :: string where
  "problem_msg = ''Oh no, a problem happened while requesting the data measurements.''"

definition invalid_msg :: string where
  "invalid_msg = ''Oh no, that email doesn't seem valid!''"

text \<open>\<^verbatim>\<open>requests.post(SERVER_URL, data=payload)\<close>: the request goes out, then the text comes back.\<close>

definition post :: "env \<Rightarrow> dict \<Rightarrow> world \<Rightarrow> (exn + string) \<times> world" where
  "post E payload w =
     (requests_post E (SERVER_URL E) payload, emit (Requests_post (SERVER_URL E) payload) w)"

definition display_or_compute_data_measures ::
  "env \<Rightarrow> bool \<Rightarrow> dstats \<Rightarrow> bool \<Rightarrow> dict \<Rightarrow> pyobj \<Rightarrow> string \<Rightarrow> stmt" where
  "display_or_compute_data_measures E cache_exists d show_embeddings dataset_args ds_configs
       column_id w =
     (if cache_exists then
        (if complete d then show_column E d ds_configs show_embeddings column_id w
         else say (St_markdown check_back) w)
      else
        (let w1 = emit (St_empty Email_input) w;
             w2 = emit (St_empty Compute_button) w1;
             w3 = emit (Text_input Email_input email_prompt) w2;
             email = email_typed E;
             w4 = emit (Button Compute_button ''Compute Measurements'') w3;
             compute = button_pressed E
         in case validate_email E email of
              Some normalized \<Rightarrow>
                (if compute then
                   (case post E (dict_kwargs [(''email'', Str normalized)] dataset_args) w4 of
                      (Inl e, w5) \<Rightarrow> (Some e, w5)
                    | (Inr text, w5) \<Rightarrow>
                        block
                          [say (Clear Email_input),
                           say (Clear Compute_button),
                           (\<lambda>w. if text = ''success'' then say (St_text computing_msg) w
                                 else say (St_text problem_msg) w)] w5)
                 else (None, w4))
            | None \<Rightarrow>
                (if email \<noteq> [] \<or> compute then say (St_text invalid_msg) w4
                 else (None, w4))))"

section \<open>Reading a trace\<close>

text \<open>The calls into the collaborator, in order.\<close>

fun calls_of :: "event list \<Rightarrow> call list" where
  "calls_of [] = []"
| "calls_of (Collab c fsys # es) = c # calls_of es"
| "calls_of (e # es) = calls_of es"

text \<open>The \<^verbatim>\<open>load_or_prepare_*\<close> methods called, in order.\<close>

fun metrics_of :: "event list \<Rightarrow> metric list" where
  "metrics_of [] = []"
| "metrics_of (Collab (Load_or_prepare m) fsys # es) = m # metrics_of es"
| "metrics_of (e # es) = metrics_of es"

text \<open>The disks the calls into the collaborator ran on.\<close>

fun disks_of :: "event list \<Rightarrow> disk list" where
  "disks_of [] = []"
| "disks_of (Collab c fsys # es) = fsys # disks_of es"
| "disks_of (e # es) = disks_of es"

text \<open>The HTTP requests sent.\<close>

fun posts_of :: "event list \<Rightarrow> (string option \<times> dict) list" where
  "posts_of [] = []"
| "posts_of (Requests_post url payload # es) = (url, payload) # posts_of es"
| "posts_of (e # es) = posts_of es"



text \<open>The events issued between a world and a later one.\<close>

definition since :: "world \<Rightarrow> world \<Rightarrow> event list" where
  "since w w' = drop (length (trace w)) (trace w')"

text \<open>The later world has the trace of the earlier one as a prefix.\<close>

definition extends :: "world \<Rightarrow> world \<Rightarrow> bool" where
  "extends w w' \<longleftrightarrow> trace w' = trace w @ since w w'"

text \<open>The later world differs from the earlier one by new events only.\<close>

definition grows :: "world \<Rightarrow> world \<Rightarrow> bool" where
  "grows w w' \<longleftrightarrow> fs w' = fs w \<and> handlers w' = handlers w \<and> extends w w'"

text \<open>
  A statement that touches neither the disk nor the handlers, and whose events all
  satisfy \<open>P\<close> on the disk it started from.
\<close>

definition tame :: "(disk \<Rightarrow> event \<Rightarrow> bool) \<Rightarrow> stmt \<Rightarrow> bool" where
  "tame P s \<longleftrightarrow>
     (\<forall>w. grows w (snd (s w)) \<and> (\<forall>e\<in>set (since w (snd (s w))). P (fs w) e))"

section \<open>What the specification names\<close>

text \<open>
  The family of \<^verbatim>\<open>load_or_prepare_*\<close> methods as the specification lists it: dataset,
  labels, text lengths, text duplicates, vocab, general stats, embeddings, npmi, zipf.
\<close>

definition spec_family :: "metric set" where
  "spec_family =
     {Dataset, Labels, Text_lengths, Text_duplicates, Vocab, General_stats, Embeddings, Npmi, Zipf}"

section \<open>Sample inputs\<close>

definition sample_dstats :: dstats where
  "sample_dstats =
     \<lparr>dset_name = ''imdb'', dset_config = ''plain_text'', split_name = ''train'',
      text_field = [''text''], fig_labels = PyObj 0, npmi_stats = PyObj 1, zipf_z = PyObj 2,
      zipf_fig = PyObj 3, text_dset = PyObj 4, fig_tree = PyObj 5, node_list = PyObj 6,
      embeddings = PyObj 7, complete = True\<rparr>"

definition sample_args :: dict where
  "sample_args =
     [(''dset_name'', Str ''imdb''), (''dset_config'', Str ''plain_text''),
      (''split_name'', Str ''train''), (''text_field'', PyList [Str ''text'']),
      (''label_field'', PyList [Str ''label''])]"

text \<open>
  An environment where nothing raises, the cache directory is found, the user typed
  an address the validator accepts and pressed the button, and the server answers
  \<^verbatim>\<open>success\<close>.
\<close>

definition sample_env :: env where
  "sample_env =
     \<lparr>CACHE_DIR = [''cache_dir''], OUR_TEXT_FIELD = ''text'',
      SERVER_URL = Some ''http://localhost:5000'',
      dstats_object = (\<lambda>p a u. sample_dstats),
      raises = (\<lambda>c. None),
      cache_dir_found = True,
      email_typed = ''A@Example.org'',
      button_pressed = True,
      validate_email = (\<lambda>s. if s = ''A@Example.org'' then Some ''A@example.org'' else None),
      requests_post = (\<lambda>u p. Inr ''success'')\<rparr>"


text \<open>The same where every \<^verbatim>\<open>load_or_prepare_*\<close> method raises.\<close>

definition no_cache_env :: env where
  "no_cache_env =
     sample_env\<lparr>raises :=
       (\<lambda>c. case c of Load_or_prepare m \<Rightarrow> Some (Exception ''no cache'') | _ \<Rightarrow> None)\<rparr>"

text \<open>A fresh process in an empty working directory.\<close>

definition empty_world :: world where
  "empty_world = \<lparr>fs = \<lparr>dirs = {}, files = {}\<rparr>, handlers = [], trace = []\<rparr>"

text \<open>The same with the cache directory in place.\<close>

definition cached_world :: world where
  "cached_world = \<lparr>fs = \<lparr>dirs = {[''cache_dir'']}, files = {}\<rparr>, handlers = [], trace = []\<rparr>"


section \<open>Traces and frames\<close>

lemma trace_emit [simp]: "trace (emit e w) = trace w @ [e]"
  by (simp add: emit_def)
lemma fs_emit [simp]: "fs (emit e w) = fs w"
  by (simp add: emit_def)
lemma handlers_emit [simp]: "handlers (emit e w) = handlers w"
  by (simp add: emit_def)

lemma since_append [simp]: "trace w' = trace w @ es \<Longrightarrow> since w w' = es"
  by (simp add: since_def)

lemma since_self [simp]: "since w w = []"
  by (simp add: since_def)

lemma calls_of_append [simp]: "calls_of (xs @ ys) = calls_of xs @ calls_of ys"
  by (induction xs rule: calls_of.induct) simp_all
lemma metrics_of_append [simp]: "metrics_of (xs @ ys) = metrics_of xs @ metrics_of ys"
  by (induction xs rule: metrics_of.induct) simp_all
lemma disks_of_append [simp]: "disks_of (xs @ ys) = disks_of xs @ disks_of ys"
  by (induction xs rule: disks_of.induct) simp_all
lemma posts_of_append [simp]: "posts_of (xs @ ys) = posts_of xs @ posts_of ys"
  by (induction xs rule: posts_of.induct) simp_all

lemma extends_refl [simp]: "extends w w"
  by (simp add: extends_def)

lemma extends_emit [simp]: "extends w (emit e w)"
  by (simp add: extends_def)

lemma extends_trans: "extends w w1 \<Longrightarrow> extends w1 w2 \<Longrightarrow> extends w w2"
  by (simp add: extends_def since_def) (metis append.assoc append_eq_conv_conj)

lemma since_trans: "extends w w1 \<Longrightarrow> extends w1 w2 \<Longrightarrow> since w w2 = since w w1 @ since w1 w2"
  by (simp add: extends_def since_def) (metis append.assoc append_eq_conv_conj)

lemma grows_refl [simp]: "grows w w"
  by (simp add: grows_def)

lemma grows_emit [simp]: "grows w (emit e w)"
  by (simp add: grows_def)

lemma grows_trans: "grows w w1 \<Longrightarrow> grows w1 w2 \<Longrightarrow> grows w w2"
  by (auto simp add: grows_def intro: extends_trans)

lemma grows_since: "grows w w1 \<Longrightarrow> grows w1 w2 \<Longrightarrow> since w w2 = since w w1 @ since w1 w2"
  by (simp add: grows_def since_trans)

lemma tame_say: "(\<And>f. P f e) \<Longrightarrow> tame P (say e)"
  by (simp add: tame_def say_def)

lemma tame_logs_warning: "(\<And>f. P f (Logs WARNING msg)) \<Longrightarrow> tame P (logs_warning msg)"
  by (simp add: logs_warning_def tame_say)

lemma tame_collab: "(\<And>f. P f (Collab c f)) \<Longrightarrow> tame P (collab E c)"
  by (simp add: tame_def collab_def)

lemma tame_if_then: "(b \<Longrightarrow> tame P s) \<Longrightarrow> tame P (if_then b s)"
  by (cases b) (simp_all add: tame_def if_then_def)

lemma tame_try_except:
  assumes "tame P s" and "tame P h"
  shows "tame P (try_except s h)"
  unfolding tame_def
proof (intro allI)
  fix w
  obtain r w1 where s: "s w = (r, w1)" by (cases "s w")
  have g1: "grows w w1" and p1: "\<forall>e\<in>set (since w w1). P (fs w) e"
    using assms(1) s by (auto simp add: tame_def dest: spec [of _ w])
  show "grows w (snd (try_except s h w)) \<and> (\<forall>e\<in>set (since w (snd (try_except s h w))). P (fs w) e)"
  proof (cases r)
    case None
    then show ?thesis using s g1 p1 by (simp add: try_except_def)
  next
    case (Some e)
    have g2: "grows w1 (snd (h w1))" and p2: "\<forall>e\<in>set (since w1 (snd (h w1))). P (fs w1) e"
      using assms(2) by (auto simp add: tame_def)
    have "fs w1 = fs w" using g1 by (simp add: grows_def)
    then show ?thesis
      using Some s g1 p1 g2 p2 grows_trans [OF g1 g2] grows_since [OF g1 g2]
      by (auto simp add: try_except_def)
  qed
qed

lemma tame_guarded:
  "(\<And>f. P f (Collab (Load_or_prepare m) f)) \<Longrightarrow> (\<And>f. P f (Logs WARNING msg)) \<Longrightarrow> tame P (guarded E m msg)"
  by (simp add: guarded_def tame_try_except tame_collab tame_logs_warning)

lemma tame_block: "(\<And>s. s \<in> set ss \<Longrightarrow> tame P s) \<Longrightarrow> tame P (block ss)"
proof (induction ss)
  case Nil
  then show ?case by (simp add: tame_def)
next
  case (Cons s ss)
  have ts: "tame P s" and tb: "tame P (block ss)" using Cons by simp_all
  show ?case unfolding tame_def
  proof (intro allI)
    fix w
    obtain r w1 where s: "s w = (r, w1)" by (cases "s w")
    have g1: "grows w w1" and p1: "\<forall>e\<in>set (since w w1). P (fs w) e"
      using ts s by (auto simp add: tame_def dest: spec [of _ w])
    show "grows w (snd (block (s # ss) w)) \<and> (\<forall>e\<in>set (since w (snd (block (s # ss) w))). P (fs w) e)"
    proof (cases r)
      case (Some e)
      then show ?thesis using s g1 p1 by simp
    next
      case None
      have g2: "grows w1 (snd (block ss w1))"
        and p2: "\<forall>e\<in>set (since w1 (snd (block ss w1))). P (fs w1) e"
        using tb by (auto simp add: tame_def)
      have "fs w1 = fs w" using g1 by (simp add: grows_def)
      then show ?thesis
        using None s g1 p1 g2 p2 grows_trans [OF g1 g2] grows_since [OF g1 g2]
        by auto
    qed
  qed
qed

section \<open>Dictionaries\<close>

lemma dict_set_map_of: "map_of (dict_set d k v) = (map_of d)(k \<mapsto> v)"
  by (induction d k v rule: dict_set.induct) (auto simp add: fun_eq_iff)

lemma dict_kwargs_map_of: "map_of (dict_kwargs d kw) = map_of d ++ map_of (rev kw)"
  unfolding dict_kwargs_def
proof (induction kw arbitrary: d)
  case Nil
  then show ?case by simp
next
  case (Cons a kw)
  obtain k v where a: "a = (k, v)" by (cases a)
  show ?case using Cons [of "dict_set d k v"]
    by (simp add: a dict_set_map_of fun_eq_iff map_add_def split: option.splits)
qed

lemma map_of_rev_distinct: "distinct (map fst kw) \<Longrightarrow> map_of (rev kw) = map_of kw"
  by (metis distinct_rev length_rev map_fst_zip map_of_inject_set rev_map set_rev zip_map_fst_snd)

lemmas unfold_stmt = say_def logs_info_def logs_warning_def if_then_def post_def

section \<open>The display function\<close>

lemma show_column_since:
  "since w (snd (show_column E d cfg se col w)) =
     [St_markdown (title_str d col), Logs INFO ''showing header'', Expander_header d cfg col,
      Logs INFO ''showing general stats'', Expander_general_stats d col,
      Expander_label_distribution (fig_labels d) col, Expander_text_lengths d col,
      Expander_text_duplicates d col, Logs INFO ''showing npmi widget'',
      Npmi_widget (npmi_stats d) 10 col, Logs INFO ''showing zipf'',
      Expander_zipf (zipf_z d) (zipf_fig d) col]
     @ (if se then [Expander_text_embeddings (text_dset d) (fig_tree d) (node_list d)
                      (embeddings d) (OUR_TEXT_FIELD E) col] else [])"
  by (simp add: show_column_def unfold_stmt since_def MIN_VOCAB_COUNT_def)

lemma show_column_frame:
  "fs (snd (show_column E d cfg se col w)) = fs w"
  "handlers (snd (show_column E d cfg se col w)) = handlers w"
  "fst (show_column E d cfg se col w) = None"
  by (simp_all add: show_column_def unfold_stmt)

lemma display_no_cache_since:
  "since w (snd (display_or_compute_data_measures E False d se args cfg col w)) =
     [St_empty Email_input, St_empty Compute_button, Text_input Email_input email_prompt,
      Button Compute_button ''Compute Measurements'']
     @ (case validate_email E (email_typed E) of
          None \<Rightarrow> if email_typed E \<noteq> [] \<or> button_pressed E then [St_text invalid_msg] else []
        | Some n \<Rightarrow>
            if button_pressed E then
              Requests_post (SERVER_URL E) (dict_kwargs [(''email'', Str n)] args)
              # (case requests_post E (SERVER_URL E) (dict_kwargs [(''email'', Str n)] args) of
                   Inl e \<Rightarrow> []
                 | Inr t \<Rightarrow> [Clear Email_input, Clear Compute_button,
                              St_text (if t = ''success'' then computing_msg else problem_msg)])
            else [])"
  by (simp add: display_or_compute_data_measures_def unfold_stmt since_def Let_def
      split: option.splits sum.splits)

lemma display_no_cache_fst:
  "fst (display_or_compute_data_measures E False d se args cfg col w) =
     (case validate_email E (email_typed E) of
        None \<Rightarrow> None
      | Some n \<Rightarrow>
          if button_pressed E then
            (case requests_post E (SERVER_URL E) (dict_kwargs [(''email'', Str n)] args) of
               Inl e \<Rightarrow> Some e | Inr t \<Rightarrow> None)
          else None)"
  by (simp add: display_or_compute_data_measures_def unfold_stmt Let_def
      split: option.splits sum.splits)

section \<open>The claims about \<^verbatim>\<open>display_or_compute_data_measures\<close>\<close>

text \<open>
  Claim C2. When the function issues its HTTP request (no cache, the validator accepts
  the address typed and returns its normalised form \<open>n\<close>, the button is pressed), it
  sends exactly one POST, to the configured server URL, with the payload
  \<^verbatim>\<open>dict({"email": n}, **dataset_args)\<close>: the dataset arguments together with the
  normalised address under the key \<^verbatim>\<open>email\<close>. When the server answers with a text, the
  function returns normally and tells the user of success if and only if the text is
  \<^verbatim>\<open>success\<close>, and shows the failure message otherwise.
\<close>

theorem C2_post_payload_and_report:
  assumes "validate_email E (email_typed E) = Some n" and "button_pressed E"
  shows "posts_of (since w (snd (display_or_compute_data_measures E False d se args cfg col w)))
           = [(SERVER_URL E, dict_kwargs [(''email'', Str n)] args)]
       \<and> (distinct (map fst args) \<longrightarrow>
            map_of (dict_kwargs [(''email'', Str n)] args) = [''email'' \<mapsto> Str n] ++ map_of args)
       \<and> (\<forall>t. requests_post E (SERVER_URL E) (dict_kwargs [(''email'', Str n)] args) = Inr t \<longrightarrow>
            fst (display_or_compute_data_measures E False d se args cfg col w) = None
            \<and> (St_text ''Computing metrics! An email will be sent to you.\<newline>This could take a while if the dataset is big.''
                 \<in> set (since w (snd (display_or_compute_data_measures E False d se args cfg col w)))
               \<longleftrightarrow> t = ''success'')
            \<and> (St_text ''Oh no, a problem happened while requesting the data measurements.''
                 \<in> set (since w (snd (display_or_compute_data_measures E False d se args cfg col w)))
               \<longleftrightarrow> t \<noteq> ''success''))"
  using assms
  by (simp add: display_no_cache_since display_no_cache_fst dict_kwargs_map_of
      map_of_rev_distinct computing_msg_def problem_msg_def split: option.splits sum.splits)

theorem C2_witness:
  "posts_of (since empty_world (snd (display_or_compute_data_measures sample_env False
      sample_dstats True sample_args (PyObj 9) [] empty_world)))
     = [(Some ''http://localhost:5000'',
         [(''email'', Str ''A@example.org''), (''dset_name'', Str ''imdb''),
          (''dset_config'', Str ''plain_text''), (''split_name'', Str ''train''),
          (''text_field'', PyList [Str ''text'']), (''label_field'', PyList [Str ''label''])])]
   \<and> St_text ''Computing metrics! An email will be sent to you.\<newline>This could take a while if the dataset is big.''
       \<in> set (since empty_world (snd (display_or_compute_data_measures sample_env False
            sample_dstats True sample_args (PyObj 9) [] empty_world)))"
  using C2_post_payload_and_report [where E = sample_env and n = "''A@example.org''"
      and w = empty_world and d = sample_dstats and se = True and args = sample_args
      and cfg = "PyObj 9" and col = "[]"]
  by (simp add: sample_env_def sample_args_def dict_kwargs_def)

text \<open>
  Claim C3. Whenever \<^verbatim>\<open>cache_exists\<close> is true, the function issues no HTTP POST.
\<close>

theorem C3_no_post_when_cached:
  "posts_of (since w (snd (display_or_compute_data_measures E True d se args cfg col w))) = []"
  by (simp add: display_or_compute_data_measures_def show_column_since)
    (simp add: say_def since_def)

theorem C3_witness:
  "posts_of (since empty_world (snd (display_or_compute_data_measures sample_env True
      sample_dstats True sample_args (PyObj 9) [] empty_world))) = []"
  by (rule C3_no_post_when_cached)





section \<open>The loaders\<close>

lemma guarded_fst [simp]: "fst (guarded E m msg w) = None"
  by (simp add: guarded_def try_except_def collab_def logs_warning_def say_def split: option.splits)

lemma guarded_fs [simp]: "fs (snd (guarded E m msg w)) = fs w"
  by (simp add: guarded_def try_except_def collab_def logs_warning_def say_def split: option.splits)

lemma guarded_handlers [simp]: "handlers (snd (guarded E m msg w)) = handlers w"
  by (simp add: guarded_def try_except_def collab_def logs_warning_def say_def split: option.splits)

lemma guarded_trace [simp]:
  "trace (snd (guarded E m msg w)) =
     trace w @ Collab (Load_or_prepare m) (fs w)
       # (if raises E (Load_or_prepare m) = None then [] else [Logs WARNING msg])"
  by (simp add: guarded_def try_except_def collab_def logs_warning_def say_def split: option.splits)

lemma block_guarded [simp]:
  "block (guarded E m msg # ss) w = block ss (snd (guarded E m msg w))"
  by (cases "guarded E m msg w") (use guarded_fst [of E m msg w] in auto)

lemma block_if_then:
  "block (if_then b s # ss) w = (if b then block (s # ss) w else block ss w)"
  by (simp add: if_then_def)

lemma block_block: "block (block ss' # ss) w = block (ss' @ ss) w"
  by (induction ss' arbitrary: w) (auto split: option.splits prod.splits)

lemma block_cons_ok: "fst (s w) = None \<Longrightarrow> block (s # ss) w = block ss (snd (s w))"
  by (cases "s w") auto

lemma block_if_guarded [simp]:
  "block (if_then b (guarded E m msg) # ss) w =
     block ss (if b then snd (guarded E m msg w) else w)"
  by (simp add: block_if_then del: block.simps(2))

lemma block_collab_ok [simp]:
  "raises E c = None \<Longrightarrow> block (collab E c # ss) w = block ss (emit (Collab c (fs w)) w)"
  by (simp add: collab_def)

lemma block_logs_warning [simp]:
  "block (logs_warning msg # ss) w = block ss (emit (Logs WARNING msg) w)"
  by (simp add: logs_warning_def say_def)

lemma block_if_logs_warning [simp]:
  "block (if_then b (logs_warning msg) # ss) w =
     block ss (if b then emit (Logs WARNING msg) w else w)"
  by (simp add: logs_warning_def say_def if_then_def)

lemma trace_if [simp]: "trace (if b then w1 else w2) = (if b then trace w1 else trace w2)"
  by simp
lemma fs_if [simp]: "fs (if b then w1 else w2) = (if b then fs w1 else fs w2)"
  by simp

lemma metrics_of_warn [simp]: "metrics_of (if b then [] else [Logs l m]) = []"
  by simp
lemma calls_of_warn [simp]: "calls_of (if b then [] else [Logs l m]) = []"
  by simp
lemma disks_of_warn [simp]: "disks_of (if b then [] else [Logs l m]) = []"
  by simp
lemma set_warn [simp]: "x \<in> set (if b then [] else [y]) \<longleftrightarrow> \<not> b \<and> x = y"
  by simp

lemma block_if_block_last:
  "block [if_then b (block ss)] w = (if b then block ss w else (None, w))"
  by (cases "block ss w") (auto simp add: if_then_def split: option.splits)

lemmas block_steps = block_guarded block_if_guarded block_collab_ok block_logs_warning
  block_if_logs_warning block_if_block_last

lemma widgets_fst:
  assumes "raises E (DatasetStatisticsCacheClass (CACHE_DIR E) a uc) = None"
    and "raises E (Set_deployment True) = None"
    and "raises E Check_cache_dir = None"
  shows "fst (load_or_prepare_widgets E a se uc w) = Inr (dstats_object E (CACHE_DIR E) a uc, cache_dir_found E)"
  using assms
  by (simp add: load_or_prepare_widgets_def returning_def block_steps del: block.simps(2))

lemma widgets_fs:
  assumes "raises E (DatasetStatisticsCacheClass (CACHE_DIR E) a uc) = None"
    and "raises E (Set_deployment True) = None"
    and "raises E Check_cache_dir = None"
  shows "fs (snd (load_or_prepare_widgets E a se uc w)) = fs w"
  using assms
  by (simp add: load_or_prepare_widgets_def returning_def block_steps del: block.simps(2))

lemma widgets_metrics:
  assumes "raises E (DatasetStatisticsCacheClass (CACHE_DIR E) a uc) = None"
    and "raises E (Set_deployment True) = None"
    and "raises E Check_cache_dir = None"
  shows "metrics_of (since w (snd (load_or_prepare_widgets E a se uc w))) =
      (if cache_dir_found E then
         [Dataset, Dset_peek, General_stats, Labels, Text_lengths] @ (if se then [Embeddings] else [])
           @ [Text_duplicates, Npmi, Zipf]
       else [])"
  using assms
  by (simp add: load_or_prepare_widgets_def returning_def block_steps since_def del: block.simps(2))


lemma snd_returning [simp]: "snd (returning v r) = snd r"
  by (simp add: returning_def split: prod.splits option.splits)

lemma fst_returning:
  "fst (returning v r) = (case fst r of None \<Rightarrow> Inr v | Some e \<Rightarrow> Inl e)"
  by (simp add: returning_def split: prod.splits option.splits)


lemma widgets_tame:
  assumes "\<And>l m f. P f (Logs l m)"
    and "\<And>c f. (\<forall>m. c = Load_or_prepare m \<longrightarrow> cache_dir_found E \<and> m \<noteq> Vocab \<and> (m = Embeddings \<longrightarrow> se))
           \<Longrightarrow> P f (Collab c f)"
  shows "grows w (snd (load_or_prepare_widgets E a se uc w))
       \<and> (\<forall>e\<in>set (since w (snd (load_or_prepare_widgets E a se uc w))). P (fs w) e)"
proof -
  have "tame P (block
         [if_then uc (logs_warning ''Using cache''),
          collab E (DatasetStatisticsCacheClass (CACHE_DIR E) a uc),
          collab E (Set_deployment True),
          collab E Check_cache_dir,
          if_then (cache_dir_found E)
            (block
              [guarded E Dataset ''Missing a cache for load or prepare dataset'',
               guarded E Dset_peek ''Missing a cache for dset peek'',
               guarded E General_stats ''Missing a cache for general stats'',
               guarded E Labels ''Missing a cache for prepare labels'',
               guarded E Text_lengths ''Missing a cache for text lengths'',
               if_then se (guarded E Embeddings ''Missing a cache for embeddings''),
               guarded E Text_duplicates ''Missing a cache for text duplicates'',
               guarded E Npmi ''Missing a cache for npmi'',
               guarded E Zipf ''Missing a cache for zipf''])])"
    by (rule tame_block)
      (auto intro!: tame_if_then tame_block tame_guarded tame_collab tame_logs_warning assms)
  then show ?thesis
    by (simp add: load_or_prepare_widgets_def tame_def)
qed

lemma cache_dir_guard_run:
  "cache_dir_guard E w =
     (if isdir (fs w) (CACHE_DIR E) then (None, w)
      else case os_mkdir (fs w) (CACHE_DIR E) of
             Inl e \<Rightarrow> (Some e, emit (Logs WARNING ''Creating cache'') w)
           | Inr f \<Rightarrow> (None, (emit (Logs WARNING ''Creating cache'') w)\<lparr>fs := f\<rparr>))"
  by (simp add: cache_dir_guard_def if_then_def logs_warning_def say_def mkdir_def
      split: sum.splits)

lemma os_mkdir_Inr:
  "os_mkdir f p = Inr f' \<longleftrightarrow>
     \<not> path_exists f p \<and> butlast p \<notin> files f \<and> isdir f (butlast p)
     \<and> f' = f\<lparr>dirs := insert p (dirs f)\<rparr>"
  by (auto simp add: os_mkdir_def)

lemma cache_dir_guard_frame:
  "extends w (snd (cache_dir_guard E w))"
  "handlers (snd (cache_dir_guard E w)) = handlers w"
  "files (fs (snd (cache_dir_guard E w))) = files (fs w)"
  "set (since w (snd (cache_dir_guard E w))) \<subseteq> {Logs WARNING ''Creating cache''}"
  "dirs (fs w) \<subseteq> dirs (fs (snd (cache_dir_guard E w)))"
  "dirs (fs (snd (cache_dir_guard E w))) \<subseteq> insert (CACHE_DIR E) (dirs (fs w))"
  "fst (cache_dir_guard E w) = None \<Longrightarrow> isdir (fs (snd (cache_dir_guard E w))) (CACHE_DIR E)"
  by (auto simp add: cache_dir_guard_run extends_def since_def os_mkdir_def isdir_def
      split: sum.splits if_splits)


lemma load_or_prepare_raised:
  assumes "fst (cache_dir_guard E w) = Some e"
  shows "load_or_prepare E a se uc w = (Inl e, snd (cache_dir_guard E w))"
  using assms
  by (cases "cache_dir_guard E w") (simp add: load_or_prepare_def returning_def)

lemma load_or_prepare_tame:
  assumes "\<And>l m f. P f (Logs l m)"
    and "\<And>c f. (\<forall>m. c = Load_or_prepare m \<longrightarrow> m \<noteq> Dset_peek \<and> (m = Embeddings \<longrightarrow> se))
           \<Longrightarrow> P f (Collab c f)"
    and "fst (cache_dir_guard E w) = None"
  shows "grows (snd (cache_dir_guard E w)) (snd (load_or_prepare E a se uc w))
       \<and> (\<forall>e\<in>set (since (snd (cache_dir_guard E w)) (snd (load_or_prepare E a se uc w))).
             P (fs (snd (cache_dir_guard E w))) e)"
proof -
  have "tame P (block
         [if_then uc (logs_warning ''Using cache''),
          collab E (DatasetStatisticsCacheClass (CACHE_DIR E) a uc),
          logs_warning ''Loading dataset'',
          collab E (Load_or_prepare Dataset),
          logs_warning ''Loading labels'',
          collab E (Load_or_prepare Labels),
          logs_warning ''Loading text lengths'',
          collab E (Load_or_prepare Text_lengths),
          logs_warning ''Loading duplicates'',
          collab E (Load_or_prepare Text_duplicates),
          logs_warning ''Loading vocabulary'',
          collab E (Load_or_prepare Vocab),
          logs_warning ''Loading general statistics...'',
          collab E (Load_or_prepare General_stats),
          if_then se
            (block [logs_warning ''Loading Embeddings'', collab E (Load_or_prepare Embeddings)]),
          logs_warning ''Loading nPMI'',
          guarded E Npmi ''Missing a cache for npmi'',
          logs_warning ''Loading Zipf'',
          collab E (Load_or_prepare Zipf)])"
    by (rule tame_block)
      (auto intro!: tame_if_then tame_block tame_guarded tame_collab tame_logs_warning assms)
  then show ?thesis
    using assms(3)
    by (simp add: load_or_prepare_def tame_def block_cons_ok del: block.simps(2))
qed

lemma load_or_prepare_run:
  assumes "fst (cache_dir_guard E w) = None"
    and "\<forall>c. c \<noteq> Load_or_prepare Npmi \<longrightarrow> raises E c = None"
  shows "fst (load_or_prepare E a se uc w) = Inr (dstats_object E (CACHE_DIR E) a uc)"
    and "metrics_of (since (snd (cache_dir_guard E w)) (snd (load_or_prepare E a se uc w))) =
           [Dataset, Labels, Text_lengths, Text_duplicates, Vocab, General_stats]
             @ (if se then [Embeddings] else []) @ [Npmi, Zipf]"
    and "raises E (Load_or_prepare Npmi) \<noteq> None \<longrightarrow> Logs WARNING ''Missing a cache for npmi''
           \<in> set (since (snd (cache_dir_guard E w)) (snd (load_or_prepare E a se uc w)))"
  using assms
  by (simp_all add: load_or_prepare_def returning_def block_cons_ok block_steps block_if_then
      block_block since_def del: block.simps(2))

lemma metrics_of_mem: "m \<in> set (metrics_of es) \<longleftrightarrow> (\<exists>f. Collab (Load_or_prepare m) f \<in> set es)"
  by (induction es rule: metrics_of.induct) auto


lemma calls_of_Nil: "calls_of es = [] \<longleftrightarrow> (\<forall>c f. Collab c f \<notin> set es)"
  by (induction es rule: calls_of.induct) auto

lemma load_or_prepare_since:
  "since w (snd (load_or_prepare E a se uc w)) =
     since w (snd (cache_dir_guard E w))
       @ since (snd (cache_dir_guard E w)) (snd (load_or_prepare E a se uc w))"
proof (cases "fst (cache_dir_guard E w)")
  case None
  have "grows (snd (cache_dir_guard E w)) (snd (load_or_prepare E a se uc w))"
    using load_or_prepare_tame [where P = "\<lambda>f e. True", OF _ _ None] by simp
  then show ?thesis
    using since_trans [OF cache_dir_guard_frame(1)] by (simp add: grows_def)
next
  case (Some e)
  then show ?thesis by (simp add: load_or_prepare_raised)
qed

lemma guard_since_metrics [simp]:
  "metrics_of (since w (snd (cache_dir_guard E w))) = []"
  "calls_of (since w (snd (cache_dir_guard E w))) = []"
  "disks_of (since w (snd (cache_dir_guard E w))) = []"
  by (auto simp add: cache_dir_guard_run since_def split: sum.splits)

section \<open>The claims about \<^verbatim>\<open>load_or_prepare\<close>\<close>




lemma metrics_of_Nil:
  "metrics_of es = [] \<longleftrightarrow> (\<forall>m f. Collab (Load_or_prepare m) f \<notin> set es)"
  by (induction es rule: metrics_of.induct) auto

section \<open>The claims about \<^verbatim>\<open>load_or_prepare_widgets\<close>\<close>

text \<open>
  Claim C8. If \<^verbatim>\<open>check_cache_dir()\<close> returns false, \<^verbatim>\<open>load_or_prepare_widgets\<close> calls no
  \<^verbatim>\<open>load_or_prepare_*\<close> method (whatever the collaborator raises), and, the constructor,
  \<^verbatim>\<open>set_deployment\<close> and \<^verbatim>\<open>check_cache_dir\<close> having returned, it returns the pair of
  the statistics object and \<^verbatim>\<open>False\<close>.
\<close>

theorem C8_no_cache_dir_no_loading:
  assumes "\<not> cache_dir_found E"
  shows "metrics_of (since w (snd (load_or_prepare_widgets E a se uc w))) = []
       \<and> (raises E (DatasetStatisticsCacheClass (CACHE_DIR E) a uc) = None
            \<and> raises E (Set_deployment True) = None \<and> raises E Check_cache_dir = None \<longrightarrow>
          fst (load_or_prepare_widgets E a se uc w)
            = Inr (dstats_object E (CACHE_DIR E) a uc, False))"
proof -
  have "\<forall>e\<in>set (since w (snd (load_or_prepare_widgets E a se uc w))).
          \<forall>m f. e \<noteq> Collab (Load_or_prepare m) f"
    using widgets_tame [where P = "\<lambda>f e. \<forall>m f. e \<noteq> Collab (Load_or_prepare m) f" and E = E]
      assms by auto
  then have "metrics_of (since w (snd (load_or_prepare_widgets E a se uc w))) = []"
    by (auto simp add: metrics_of_Nil)
  then show ?thesis using assms by (simp add: widgets_fst)
qed

theorem C8_witness:
  "metrics_of (since cached_world (snd (load_or_prepare_widgets
      (sample_env\<lparr>cache_dir_found := False\<rparr>) sample_args True True cached_world))) = []
   \<and> fst (load_or_prepare_widgets (sample_env\<lparr>cache_dir_found := False\<rparr>) sample_args True True
        cached_world) = Inr (sample_dstats, False)"
  using C8_no_cache_dir_no_loading [where E = "sample_env\<lparr>cache_dir_found := False\<rparr>"
      and a = sample_args and se = True and uc = True and w = cached_world]
  by (simp add: sample_env_def)

section \<open>Failure isolation\<close>




section \<open>Frames of the loaders and of the logger set-up\<close>

lemma widgets_grows: "grows w (snd (load_or_prepare_widgets E a se uc w))"
  using widgets_tame [where P = "\<lambda>f e. True"] by simp

lemma load_or_prepare_fs:
  "fs (snd (load_or_prepare E a se uc w)) = fs (snd (cache_dir_guard E w))"
proof (cases "fst (cache_dir_guard E w)")
  case None
  show ?thesis
    using load_or_prepare_tame [where P = "\<lambda>f e. True", OF _ _ None] by (simp add: grows_def)
next
  case (Some e)
  then show ?thesis by (simp add: load_or_prepare_raised)
qed

lemma load_or_prepare_only:
  assumes "\<And>l m f. P f (Logs l m)"
    and "\<And>c f. (\<forall>m. c = Load_or_prepare m \<longrightarrow> m \<noteq> Dset_peek \<and> (m = Embeddings \<longrightarrow> se))
           \<Longrightarrow> P f (Collab c f)"
  shows "\<forall>e\<in>set (since w (snd (load_or_prepare E a se uc w))). \<exists>f. P f e"
proof (cases "fst (cache_dir_guard E w)")
  case None
  have "\<forall>e\<in>set (since w (snd (cache_dir_guard E w))). \<exists>f. P f e"
    using cache_dir_guard_frame(4) [where w = w and E = E] assms(1) by auto
  moreover have "\<forall>e\<in>set (since (snd (cache_dir_guard E w)) (snd (load_or_prepare E a se uc w))).
      P (fs (snd (cache_dir_guard E w))) e"
    using load_or_prepare_tame [where P = P and se = se and E = E and w = w and a = a and uc = uc]
      assms None by blast
  ultimately show ?thesis
    by (auto simp add: load_or_prepare_since)
next
  case (Some e)
  then show ?thesis
    using cache_dir_guard_frame(4) [where w = w and E = E] assms(1)
    by (auto simp add: load_or_prepare_raised)
qed

lemma display_fs:
  "fs (snd (display_or_compute_data_measures E ce d se args cfg col w)) = fs w"
  by (simp add: display_or_compute_data_measures_def show_column_frame unfold_stmt Let_def
      split: option.splits sum.splits)

lemma logs_setup_frame:
  "dirs (fs w) \<subseteq> dirs (fs (snd (logs_setup w)))"
  "dirs (fs (snd (logs_setup w))) \<subseteq> insert log_files (dirs (fs w))"
  "files (fs w) \<subseteq> files (fs (snd (logs_setup w)))"
  "files (fs (snd (logs_setup w))) \<subseteq> insert app_log (files (fs w))"
  "handlers w \<noteq> [] \<Longrightarrow> fs (snd (logs_setup w)) = fs w"
  by (auto simp add: logs_setup_def if_then_def path_mkdir_def new_FileHandler_def addHandler_def
      path_mkdir_exist_ok_def os_mkdir_def open_append_def split: sum.splits exn.splits if_splits)

section \<open>What the file writes to disk\<close>

text \<open>
  Claim C6, as stated, fails: in a fresh process in an empty working directory, the
  module body itself creates the directory \<^verbatim>\<open>./log_files\<close> and the file
  \<^verbatim>\<open>./log_files/app.log\<close>, neither of them under the cache directory.
\<close>

theorem C6_counterexample:
  "fs empty_world = \<lparr>dirs = {}, files = {}\<rparr>
   \<and> fst (logs_setup empty_world) = None
   \<and> fs (snd (logs_setup empty_world))
       = \<lparr>dirs = {[''log_files'']}, files = {[''log_files'', ''app.log'']}\<rparr>"
  by (simp add: logs_setup_def if_then_def path_mkdir_def new_FileHandler_def addHandler_def
      path_mkdir_exist_ok_def os_mkdir_def open_append_def empty_world_def log_files_def
      app_log_def isdir_def path_exists_def)

text \<open>
  Claim C6, amended. \<^verbatim>\<open>load_or_prepare_widgets\<close>, \<^verbatim>\<open>show_column\<close> and
  \<^verbatim>\<open>display_or_compute_data_measures\<close> leave the disk as it is. \<^verbatim>\<open>load_or_prepare\<close>
  creates no file and at most the directory \<^verbatim>\<open>CACHE_DIR\<close>. Setting up the logger creates
  at most the directory \<^verbatim>\<open>./log_files\<close> and the file \<^verbatim>\<open>./log_files/app.log\<close>, and
  nothing when the logger already has handlers. Nothing is ever removed. (What the
  collaborator writes is its own and is not part of this disk.)
\<close>

theorem C6_disk_frame:
  "fs (snd (load_or_prepare_widgets E a se uc w)) = fs w
   \<and> fs (snd (show_column E d cfg se col w)) = fs w
   \<and> fs (snd (display_or_compute_data_measures E ce d se args cfg col w)) = fs w
   \<and> files (fs (snd (load_or_prepare E a se uc w))) = files (fs w)
   \<and> dirs (fs w) \<subseteq> dirs (fs (snd (load_or_prepare E a se uc w)))
   \<and> dirs (fs (snd (load_or_prepare E a se uc w))) \<subseteq> insert (CACHE_DIR E) (dirs (fs w))
   \<and> dirs (fs w) \<subseteq> dirs (fs (snd (logs_setup w)))
   \<and> dirs (fs (snd (logs_setup w))) \<subseteq> insert [''log_files''] (dirs (fs w))
   \<and> files (fs w) \<subseteq> files (fs (snd (logs_setup w)))
   \<and> files (fs (snd (logs_setup w))) \<subseteq> insert [''log_files'', ''app.log''] (files (fs w))
   \<and> (handlers w \<noteq> [] \<longrightarrow> fs (snd (logs_setup w)) = fs w)"
  using widgets_grows [of w E a se uc] cache_dir_guard_frame(3,5,6) [where E = E and w = w]
    logs_setup_frame [of w]
  by (simp add: grows_def show_column_frame display_fs load_or_prepare_fs log_files_def
      app_log_def)

theorem C6_witness:
  "fs (snd (load_or_prepare_widgets no_cache_env sample_args True True cached_world))
     = fs cached_world
   \<and> dirs (fs (snd (load_or_prepare sample_env sample_args True True empty_world)))
       \<subseteq> {[''cache_dir'']}
   \<and> fs (snd (logs_setup (cached_world\<lparr>handlers := [StreamHandler]\<rparr>))) = fs cached_world"
  using C6_disk_frame [where E = no_cache_env and a = sample_args and se = True and uc = True
      and w = cached_world]
    C6_disk_frame [where E = sample_env and a = sample_args and se = True and uc = True
      and w = empty_world]
    C6_disk_frame [where w = "cached_world\<lparr>handlers := [StreamHandler]\<rparr>"]
  by (simp add: sample_env_def empty_world_def cached_world_def)

section \<open>The methods invoked\<close>

text \<open>
  Claim C5, as stated, fails: with the cache directory found and \<^verbatim>\<open>show_embeddings\<close>
  true, \<^verbatim>\<open>load_or_prepare_widgets\<close> calls \<^verbatim>\<open>load_or_prepare_dset_peek\<close>, which is not
  in the family the specification names, and does not call \<^verbatim>\<open>load_or_prepare_vocab\<close>,
  which is.
\<close>

theorem C5_counterexample:
  "Dset_peek \<in> set (metrics_of (since cached_world
       (snd (load_or_prepare_widgets sample_env sample_args True True cached_world))))
   \<and> Dset_peek \<notin> spec_family
   \<and> Vocab \<in> spec_family
   \<and> Vocab \<notin> set (metrics_of (since cached_world
       (snd (load_or_prepare_widgets sample_env sample_args True True cached_world))))"
  by (simp add: widgets_metrics sample_env_def spec_family_def)

text \<open>
  Claim C5, amended. With \<^verbatim>\<open>show_embeddings\<close> true and nothing raising,
  \<^verbatim>\<open>load_or_prepare\<close> calls exactly the family the specification names. With
  \<^verbatim>\<open>show_embeddings\<close> true and the cache directory found, \<^verbatim>\<open>load_or_prepare_widgets\<close>
  calls exactly that family without \<^verbatim>\<open>vocab\<close> and with \<^verbatim>\<open>dset_peek\<close>. On no input
  does either loader call a method outside these sets.
\<close>

theorem C5_methods_invoked:
  "(fst (cache_dir_guard E w) = None \<and> (\<forall>c. raises E c = None) \<longrightarrow>
      set (metrics_of (since w (snd (load_or_prepare E a True uc w)))) = spec_family)
   \<and> (raises E (DatasetStatisticsCacheClass (CACHE_DIR E) a uc) = None
        \<and> raises E (Set_deployment True) = None \<and> raises E Check_cache_dir = None
        \<and> cache_dir_found E \<longrightarrow>
      set (metrics_of (since w (snd (load_or_prepare_widgets E a True uc w))))
        = insert Dset_peek (spec_family - {Vocab}))
   \<and> set (metrics_of (since w (snd (load_or_prepare E a se uc w)))) \<subseteq> spec_family
   \<and> set (metrics_of (since w (snd (load_or_prepare_widgets E a se uc w))))
        \<subseteq> insert Dset_peek (spec_family - {Vocab})"
proof -
  have 1: "set (metrics_of (since w (snd (load_or_prepare E a True uc w)))) = spec_family"
    if "fst (cache_dir_guard E w) = None \<and> (\<forall>c. raises E c = None)"
    using that load_or_prepare_run(2) [of E w a True uc]
    by (auto simp add: load_or_prepare_since spec_family_def)
  have 2: "set (metrics_of (since w (snd (load_or_prepare_widgets E a True uc w))))
        = insert Dset_peek (spec_family - {Vocab})"
    if "raises E (DatasetStatisticsCacheClass (CACHE_DIR E) a uc) = None
        \<and> raises E (Set_deployment True) = None \<and> raises E Check_cache_dir = None
        \<and> cache_dir_found E"
    using that by (auto simp add: widgets_metrics spec_family_def)
  have "Dset_peek \<notin> set (metrics_of (since w (snd (load_or_prepare E a se uc w))))"
    using load_or_prepare_only [where P = "\<lambda>f e. \<forall>f'. e \<noteq> Collab (Load_or_prepare Dset_peek) f'"
        and E = E and w = w and a = a and se = se and uc = uc]
    by (auto simp add: metrics_of_mem)
  then have 3: "set (metrics_of (since w (snd (load_or_prepare E a se uc w)))) \<subseteq> spec_family"
    by (auto simp add: spec_family_def) (metis metric.exhaust)
  have "Vocab \<notin> set (metrics_of (since w (snd (load_or_prepare_widgets E a se uc w))))"
    using widgets_tame [where P = "\<lambda>f e. \<forall>f'. e \<noteq> Collab (Load_or_prepare Vocab) f'"
        and E = E and w = w and a = a and se = se and uc = uc]
    by (auto simp add: metrics_of_mem)
  then have 4: "set (metrics_of (since w (snd (load_or_prepare_widgets E a se uc w))))
        \<subseteq> insert Dset_peek (spec_family - {Vocab})"
    by (auto simp add: spec_family_def) (metis metric.exhaust)
  show ?thesis using 1 2 3 4 by blast
qed

theorem C5_witness:
  "set (metrics_of (since cached_world
      (snd (load_or_prepare sample_env sample_args True True cached_world)))) = spec_family
   \<and> set (metrics_of (since cached_world
      (snd (load_or_prepare_widgets sample_env sample_args True True cached_world))))
     = insert Dset_peek (spec_family - {Vocab})"
  using C5_methods_invoked [where E = sample_env and a = sample_args and uc = True
      and w = cached_world]
  by (simp add: sample_env_def cached_world_def cache_dir_guard_run isdir_def)

section \<open>Embeddings\<close>




end
